theory Spec2Isabelle
  imports Complex_Main
begin

section \<open>Model registry and training orchestration of the digital-twin backend\<close>

text \<open>
  A shallow embedding of \<^verbatim>\<open>app/ml/model_manager.py\<close> (the alert family) and
  \<^verbatim>\<open>app/nutrition/food_ml_model.py\<close> (the food family).

  Python floats are modelled as \<^typ>\<open>real\<close>: the properties below compare and add
  numbers, none of them rests on rounding. Strings are byte lists and are taken to be
  ASCII. The files on disk, the experiment tracker and the clock are an explicit store
  that every function takes and returns; a raised exception is an \<open>Inl\<close> value next to
  the store the exception leaves behind.
\<close>

subsection \<open>Exceptions\<close>

datatype py_error =
    ValueError string
  | KeyError string
  | TypeError
  | ZeroDivisionError
  | FileNotFoundError string
  | UnpicklingError string
  | LibraryError string

subsection \<open>Registry records and the store\<close>

text \<open>
  The dictionaries appended to \<^verbatim>\<open>meta["models"]\<close>. Both families write
  \<^verbatim>\<open>name\<close>, \<^verbatim>\<open>path\<close>, \<^verbatim>\<open>mlflow_run_id\<close>, \<^verbatim>\<open>created_at\<close> and
  \<^verbatim>\<open>active\<close>; the alert family adds \<^verbatim>\<open>model_type\<close>, \<^verbatim>\<open>accuracy\<close> and
  \<^verbatim>\<open>f1_macro\<close>, the food family \<^verbatim>\<open>mae\<close>. A field that the code fills from a
  variable initialised to \<^verbatim>\<open>None\<close> is an option.
\<close>

record model_record =
  name :: string
  path :: string
  mlflow_run_id :: "string option"
  created_at :: string
  active :: bool

record alert_record = model_record +
  model_type :: "string option"
  accuracy :: real
  f1_macro :: real

record food_record = model_record +
  mae :: real

text \<open>
  The JSON document \<^verbatim>\<open>{"models": [...]}\<close>: the value under the key
  \<^verbatim>\<open>"models"\<close>, \<open>None\<close> when the key is absent.
\<close>

datatype 'r meta_doc = MetaDoc "'r list option"

text \<open>A joblib file: a pickled fitted model, or bytes that \<^verbatim>\<open>load\<close> cannot read.\<close>

datatype 'm artifact = Fitted 'm | Unreadable

text \<open>
  One family's durable state: the registry document (\<open>None\<close> while the file does not
  exist), the artifact files by path, and the names of the MLflow runs started so far.
\<close>

record ('r, 'm) store =
  meta_file :: "'r meta_doc option"
  files :: "string \<rightharpoonup> 'm artifact"
  mlflow_runs :: "string list"

text \<open>A fitted alert pipeline: \<^verbatim>\<open>int(model.predict(features)[0])\<close> on one row.\<close>

type_synonym alert_model = "real list \<Rightarrow> int"

text \<open>
  A fitted food regressor: \<^verbatim>\<open>model.predict([[idx, qty]])[0]\<close>, the four
  values calories, protein, carbs, fat.
\<close>

type_synonym food_model = "nat \<Rightarrow> real \<Rightarrow> real \<times> real \<times> real \<times> real"

type_synonym alert_store = "(alert_record, alert_model) store"
type_synonym food_store = "(food_record, food_model) store"

definition MODELS_DIR :: string where
  "MODELS_DIR = ''models''"

definition FOOD_MODELS_DIR :: string where
  "FOOD_MODELS_DIR = ''models_food''"

text \<open>\<^verbatim>\<open>os.path.join(dir, file)\<close> for a relative \<open>file\<close>, and \<^verbatim>\<open>os.path.basename\<close>.\<close>

definition path_join :: "string \<Rightarrow> string \<Rightarrow> string" where
  "path_join d f = d @ ''/'' @ f"

definition basename :: "string \<Rightarrow> string" where
  "basename p = rev (takeWhile (\<lambda>c. c \<noteq> CHR ''/'') (rev p))"

text \<open>\<^verbatim>\<open>meta.get("models", [])\<close>\<close>

fun get_models :: "'r meta_doc \<Rightarrow> 'r list" where
  "get_models (MetaDoc None) = []"
| "get_models (MetaDoc (Some ms)) = ms"

subsection \<open>File and meta helpers of the alert family\<close>

definition ensure_dirs :: "alert_store \<Rightarrow> alert_store" where
  "ensure_dirs s =
     (case meta_file s of
        None \<Rightarrow> s\<lparr>meta_file := Some (MetaDoc (Some []))\<rparr>
      | Some _ \<Rightarrow> s)"

definition load_meta :: "alert_store \<Rightarrow> alert_record meta_doc \<times> alert_store" where
  "load_meta s =
     (let s1 = ensure_dirs s in
      case meta_file s1 of
        Some doc \<Rightarrow> (doc, s1)
      | None \<Rightarrow> (MetaDoc (Some []), s1))"

definition save_meta :: "alert_record meta_doc \<Rightarrow> alert_store \<Rightarrow> alert_store" where
  "save_meta doc s = s\<lparr>meta_file := Some doc\<rparr>"

definition get_registered_models :: "alert_store \<Rightarrow> alert_record list \<times> alert_store" where
  "get_registered_models s = (let (doc, s1) = load_meta s in (get_models doc, s1))"

definition get_active_model_path :: "alert_store \<Rightarrow> string option \<times> alert_store" where
  "get_active_model_path s =
     (let (doc, s1) = load_meta s;
          ms = get_models doc;
          act = filter active ms
      in (if act \<noteq> [] then Some (path (last act)) else None, s1))"

definition get_active_model_info :: "alert_store \<Rightarrow> alert_record option \<times> alert_store" where
  "get_active_model_info s =
     (let (doc, s1) = load_meta s;
          ms = get_models doc
      in (find active (rev ms), s1))"

subsection \<open>File and meta helpers of the food family\<close>

definition ensure_food_dirs :: "food_store \<Rightarrow> food_store" where
  "ensure_food_dirs s =
     (case meta_file s of
        None \<Rightarrow> s\<lparr>meta_file := Some (MetaDoc (Some []))\<rparr>
      | Some _ \<Rightarrow> s)"

definition load_food_meta :: "food_store \<Rightarrow> food_record meta_doc \<times> food_store" where
  "load_food_meta s =
     (let s1 = ensure_food_dirs s in
      case meta_file s1 of
        Some doc \<Rightarrow> (doc, s1)
      | None \<Rightarrow> (MetaDoc (Some []), s1))"

definition save_food_meta :: "food_record meta_doc \<Rightarrow> food_store \<Rightarrow> food_store" where
  "save_food_meta doc s = s\<lparr>meta_file := Some doc\<rparr>"

definition get_active_food_model_path :: "food_store \<Rightarrow> string option \<times> food_store" where
  "get_active_food_model_path s =
     (let (doc, s1) = load_food_meta s;
          ms = get_models doc;
          act = filter active ms
      in (if act = [] then None else Some (path (last act)), s1))"

definition get_registered_food_models :: "food_store \<Rightarrow> food_record list \<times> food_store" where
  "get_registered_food_models s = (let (doc, s1) = load_food_meta s in (get_models doc, s1))"

subsection \<open>Feature encoders\<close>

text \<open>
  The ORM class \<^verbatim>\<open>Twin\<close> is declared outside the sources at hand. Its columns are
  taken from their uses: \<^verbatim>\<open>age\<close>, \<^verbatim>\<open>height_cm\<close> and \<^verbatim>\<open>weight_kg\<close> are
  used bare (numbers), every other column is read as \<^verbatim>\<open>t.col or default\<close> and is
  nullable.
\<close>

record twin =
  age :: real
  gender :: "string option"
  height_cm :: real
  weight_kg :: real
  spo2 :: "real option"
  resting_hr :: "real option"
  sleep_hours :: "real option"
  screen_time_hours :: "real option"
  exercise_level :: "real option"
  smoking :: "real option"
  alcohol :: "real option"
  daily_steps :: "real option"
  outside_food_per_week :: "real option"
  tea_coffee_per_day :: "real option"
  diet_type :: "string option"
  income :: "real option"
  aqi :: "real option"
  commute_hours :: "real option"
  ac_exposure_hours :: "real option"
  heart_score :: "real option"
  metabolic_score :: "real option"
  mental_stress_score :: "real option"
  lung_risk_score :: "real option"
  organ_load_score :: "real option"

text \<open>Python's \<^verbatim>\<open>x or d\<close> on a nullable number: \<open>d\<close> when \<open>x\<close> is \<^verbatim>\<open>None\<close> or zero.\<close>

definition py_or :: "real option \<Rightarrow> real \<Rightarrow> real" where
  "py_or x d = (case x of None \<Rightarrow> d | Some v \<Rightarrow> if v = 0 then d else v)"

definition lower_char :: "char \<Rightarrow> char" where
  "lower_char c =
     (let n = (of_char c :: nat) in if 65 \<le> n \<and> n \<le> 90 then char_of (n + 32) else c)"

definition lower :: "string \<Rightarrow> string" where
  "lower s = map lower_char s"

definition startswith :: "string \<Rightarrow> string \<Rightarrow> bool" where
  "startswith s p = (take (length p) s = p)"

text \<open>\<^verbatim>\<open>sub in s\<close> on strings.\<close>

fun contains :: "string \<Rightarrow> string \<Rightarrow> bool" where
  "contains sub [] = (sub = [])"
| "contains sub (c # cs) = (startswith (c # cs) sub \<or> contains sub cs)"

definition encode_gender :: "string option \<Rightarrow> real" where
  "encode_gender g =
     (case g of
        None \<Rightarrow> 0
      | Some g0 \<Rightarrow>
          if g0 = [] then 0
          else (let g1 = lower g0 in
                if startswith g1 ''m'' then 0
                else if startswith g1 ''f'' then 1
                else 2))"

definition encode_diet :: "string option \<Rightarrow> real" where
  "encode_diet d =
     (case d of
        None \<Rightarrow> 3
      | Some d0 \<Rightarrow>
          if d0 = [] then 3
          else (let d1 = lower d0 in
                if contains ''veg'' d1 \<and> \<not> contains ''non'' d1 then 0
                else if contains ''egg'' d1 then 1
                else if contains ''non'' d1 then 2
                else 3))"

subsection \<open>Feature vector and label\<close>

definition build_feature_vector :: "twin \<Rightarrow> py_error + real list" where
  "build_feature_vector t =
     (if (height_cm t / 100) ^ 2 = 0 then Inl ZeroDivisionError
      else (let bmi = weight_kg t / ((height_cm t / 100) ^ 2) in
        Inr [
          age t,
          encode_gender (gender t),
          bmi,
          py_or (spo2 t) 97,
          py_or (resting_hr t) 72,
          py_or (sleep_hours t) 7,
          py_or (screen_time_hours t) 6,
          py_or (exercise_level t) 1,
          py_or (smoking t) 0,
          py_or (alcohol t) 0,
          py_or (daily_steps t) 4000,
          py_or (outside_food_per_week t) 3,
          py_or (tea_coffee_per_day t) 2,
          encode_diet (diet_type t),
          py_or (income t) 600000,
          py_or (aqi t) 120,
          py_or (commute_hours t) 1.0,
          py_or (ac_exposure_hours t) 4.0,
          py_or (heart_score t) 0.3,
          py_or (metabolic_score t) 0.3,
          py_or (mental_stress_score t) 0.3,
          py_or (lung_risk_score t) 0.3,
          py_or (organ_load_score t) 0.4
        ]))"

definition build_label :: "twin \<Rightarrow> int" where
  "build_label t =
     (let ol = py_or (organ_load_score t) 0.0 in
      if ol < 0.4 then 0
      else if ol < 0.6 then 1
      else if ol < 0.8 then 2
      else 3)"

subsection \<open>Loading the training data\<close>

text \<open>
  What a training run takes from outside the module: the rows of the \<^verbatim>\<open>twins\<close>
  table, whether \<^verbatim>\<open>xgboost\<close> imports, scikit-learn's split and, for a candidate
  key and a split, the fitted pipeline with its accuracy and macro-F1 on the test
  partition, MLflow's run id for a run name, and the clock (the file-name stamp read
  while the candidate's run is open, the ISO time read for the record). The library
  calls can raise: a stratified split of a class with one member does, and so does a
  logistic regression fitted on one class.
\<close>

type_synonym split =
  "real list list \<times> real list list \<times> int list \<times> int list"

record alert_env =
  db_twins :: "twin list"
  XGBOOST_AVAILABLE :: bool
  train_test_split :: "real list list \<Rightarrow> int list \<Rightarrow> py_error + split"
  fit_score :: "string \<Rightarrow> split \<Rightarrow> py_error + (alert_model \<times> real \<times> real)"
  run_id :: "string \<Rightarrow> string"
  utcnow_stamp :: "string \<Rightarrow> string"
  utcnow_iso :: string

text \<open>The loop \<^verbatim>\<open>for t in twins: X.append(...); y.append(...)\<close>.\<close>

fun build_rows :: "twin list \<Rightarrow> py_error + (real list list \<times> int list)" where
  "build_rows [] = Inr ([], [])"
| "build_rows (t # ts) =
     (case build_feature_vector t of
        Inl e \<Rightarrow> Inl e
      | Inr fv \<Rightarrow>
          (case build_rows ts of
             Inl e \<Rightarrow> Inl e
           | Inr (X, y) \<Rightarrow> Inr (fv # X, build_label t # y)))"

definition load_training_data_from_db ::
  "alert_env \<Rightarrow> py_error + (real list list \<times> int list)" where
  "load_training_data_from_db env =
     (let twins = db_twins env in
      if length twins < 10 then Inl (ValueError ''Not enough twins to train model.'')
      else build_rows twins)"

subsection \<open>Retraining the alert model\<close>

text \<open>
  The \<^verbatim>\<open>models\<close> dictionary in insertion order, which is the order the loop
  evaluates the candidates in.
\<close>

definition candidate_keys :: "alert_env \<Rightarrow> string list" where
  "candidate_keys env =
     [''logreg'', ''rf'', ''gb'', ''knn'', ''extra_trees'', ''adaboost'']
       @ (if XGBOOST_AVAILABLE env then [''xgboost''] else [])"

text \<open>The five \<^verbatim>\<open>best_*\<close> variables of \<^verbatim>\<open>retrain_alert_model\<close>.\<close>

record best =
  best_model_path :: "string option"
  best_f1 :: real
  best_acc :: real
  best_key :: "string option"
  best_run :: "string option"

definition initial_best :: best where
  "initial_best =
     \<lparr>best_model_path = None, best_f1 = -1, best_acc = 0, best_key = None, best_run = None\<rparr>"

text \<open>
  The loop \<^verbatim>\<open>for key, clf in models.items()\<close>: each candidate opens an MLflow run,
  is fitted and scored, is dumped to a file of its own, and replaces the best one so far
  when its macro-F1 is strictly greater. An exception of the library ends the loop with
  the runs and files written until then.
\<close>

fun evaluate_candidates ::
  "alert_env \<Rightarrow> split \<Rightarrow> string list \<Rightarrow> best \<Rightarrow> alert_store \<Rightarrow> (py_error + best) \<times> alert_store"
where
  "evaluate_candidates env sp [] b s = (Inr b, s)"
| "evaluate_candidates env sp (key # keys) b s =
     (let s1 = s\<lparr>mlflow_runs := mlflow_runs s @ [''alert_'' @ key]\<rparr> in
      case fit_score env key sp of
        Inl e \<Rightarrow> (Inl e, s1)
      | Inr (pipe, acc, f1) \<Rightarrow>
          (let model_path =
                 path_join MODELS_DIR
                   (''alert_'' @ key @ ''_'' @ utcnow_stamp env key @ ''.joblib'');
               s2 = s1\<lparr>files := (files s1)(model_path \<mapsto> Fitted pipe)\<rparr>;
               b2 = (if f1 > best_f1 b
                     then \<lparr>best_model_path = Some model_path, best_f1 = f1, best_acc = acc,
                           best_key = Some key, best_run = Some (run_id env (''alert_'' @ key))\<rparr>
                     else b)
           in evaluate_candidates env sp keys b2 s2))"

text \<open>The dictionary \<^verbatim>\<open>retrain_alert_model\<close> returns.\<close>

record training_summary =
  summary_status :: string
  summary_best_model :: "string option"
  summary_accuracy :: real
  summary_f1_macro :: real
  summary_model_path :: string
  summary_mlflow_run_id :: "string option"

definition retrain_alert_model ::
  "alert_env \<Rightarrow> alert_store \<Rightarrow> (py_error + training_summary) \<times> alert_store" where
  "retrain_alert_model env s =
     (let s0 = ensure_dirs s in
      case load_training_data_from_db env of
        Inl e \<Rightarrow> (Inl e, s0)
      | Inr (X, y) \<Rightarrow>
      (case train_test_split env X y of
        Inl e \<Rightarrow> (Inl e, s0)
      | Inr sp \<Rightarrow>
      (case evaluate_candidates env sp (candidate_keys env) initial_best s0 of
        (Inl e, s1) \<Rightarrow> (Inl e, s1)
      | (Inr b, s1) \<Rightarrow>
      (let (doc, s2) = load_meta s1 in
       case doc of
         MetaDoc None \<Rightarrow> (Inl (KeyError ''models''), s2)
       | MetaDoc (Some ms) \<Rightarrow>
       (case best_model_path b of
          None \<Rightarrow> (Inl TypeError, s2)
        | Some bp \<Rightarrow>
          (let ms2 = map (\<lambda>m. m\<lparr>active := False\<rparr>) ms @
                 [\<lparr>name = basename bp, path = bp, mlflow_run_id = best_run b,
                   created_at = utcnow_iso env, active = True,
                   model_type = best_key b, accuracy = best_acc b, f1_macro = best_f1 b\<rparr>];
               s3 = save_meta (MetaDoc (Some ms2)) s2
           in (Inr \<lparr>summary_status = ''trained_on_real_db'',
                     summary_best_model = best_key b,
                     summary_accuracy = best_acc b,
                     summary_f1_macro = best_f1 b,
                     summary_model_path = bp,
                     summary_mlflow_run_id = best_run b\<rparr>, s3)))))))"

subsection \<open>Prediction with the active alert model\<close>

text \<open>\<^verbatim>\<open>joblib.load(path)\<close>\<close>

definition load :: "('r, 'm) store \<Rightarrow> string \<Rightarrow> py_error + 'm" where
  "load s p =
     (case files s p of
        None \<Rightarrow> Inl (FileNotFoundError p)
      | Some Unreadable \<Rightarrow> Inl (UnpicklingError p)
      | Some (Fitted m) \<Rightarrow> Inr m)"

definition labels :: "int \<rightharpoonup> string" where
  "labels = map_of
     [(0, ''no_consult''),
      (1, ''routine_consult''),
      (2, ''specialist_consult''),
      (3, ''emergency'')]"

text \<open>The two dictionaries \<^verbatim>\<open>predict_alert_for_twin\<close> returns.\<close>

datatype alert_result =
    AlertError string
  | AlertPrediction int string

definition predict_alert_for_twin ::
  "twin \<Rightarrow> alert_store \<Rightarrow> (py_error + alert_result) \<times> alert_store" where
  "predict_alert_for_twin t s =
     (let (p_opt, s1) = get_active_model_path s in
      case p_opt of
        None \<Rightarrow> (Inr (AlertError ''No active model found''), s1)
      | Some p \<Rightarrow>
          if p = [] then (Inr (AlertError ''No active model found''), s1)
          else
            (case load s1 p of
               Inl e \<Rightarrow> (Inl e, s1)
             | Inr model \<Rightarrow>
                 (case build_feature_vector t of
                    Inl e \<Rightarrow> (Inl e, s1)
                  | Inr features \<Rightarrow>
                      (let pred = model features in
                       case labels pred of
                         None \<Rightarrow> (Inl (KeyError ''labels''), s1)
                       | Some l \<Rightarrow> (Inr (AlertPrediction pred l), s1)))))"

subsection \<open>The food catalogue\<close>

text \<open>\<^verbatim>\<open>FOOD_DB\<close> in insertion order: calories, protein, carbs and fat per unit.\<close>

definition FOOD_DB :: "(string \<times> real \<times> real \<times> real \<times> real) list" where
  "FOOD_DB =
     [(''idli'',          70,  2.0, 12.0, 0.5),
      (''dosa'',          130, 3.0, 20.0, 4.0),
      (''poha'',          180, 4.0, 30.0, 5.0),
      (''upma'',          200, 5.0, 28.0, 7.0),
      (''aloo_paratha'',  220, 5.0, 30.0, 9.0),
      (''chai'',          80,  2.0, 10.0, 3.0),
      (''coffee'',        60,  2.0, 6.0,  2.0),
      (''bread_slice'',   75,  2.5, 14.0, 1.0),
      (''omelette'',      120, 8.0, 1.0,  9.0),
      (''curd_bowl'',     90,  5.0, 4.0,  5.0),
      (''paratha_plain'', 190, 4.0, 28.0, 7.0),
      (''banana'',        100, 1.2, 25.0, 0.3)]"

text \<open>\<^verbatim>\<open>{name: idx for idx, name in enumerate(FOOD_DB.keys())}\<close>\<close>

definition FOOD_INDEX :: "(string \<times> nat) list" where
  "FOOD_INDEX = zip (map fst FOOD_DB) [0 ..< length FOOD_DB]"

subsection \<open>Retraining the food model\<close>

text \<open>
  The synthetic training data: every catalogue entry at five quantities. The lookup
  \<^verbatim>\<open>FOOD_DB[name]\<close> is of a key of \<^verbatim>\<open>FOOD_DB\<close> and always finds it.
\<close>

definition generate_food_training_data ::
  "(nat \<times> real) list \<times> (real \<times> real \<times> real \<times> real) list" where
  "generate_food_training_data =
     (let rows = concat (map (\<lambda>(nm, idx).
                   case map_of FOOD_DB nm of
                     None \<Rightarrow> []
                   | Some (cal, p, c, f) \<Rightarrow>
                       map (\<lambda>qty. ((idx, qty), (cal * qty, p * qty, c * qty, f * qty)))
                         [0.5, 1.0, 1.5, 2.0, 3.0]) FOOD_INDEX)
      in (map fst rows, map snd rows))"

text \<open>
  What a food training run takes from outside the module: the regressor that the split
  and the fit with their fixed seeds give on the data, with its mean absolute error;
  MLflow's run id; the clock, read for the file name and for the record.
\<close>

record food_env =
  food_fit :: "(nat \<times> real) list \<Rightarrow> (real \<times> real \<times> real \<times> real) list \<Rightarrow> food_model \<times> real"
  food_run_id :: string
  food_utcnow_stamp :: string
  food_utcnow_iso :: string

text \<open>The dictionary \<^verbatim>\<open>retrain_food_model\<close> returns.\<close>

record food_info =
  info_status :: string
  info_mae :: real
  info_model_path :: string
  info_mlflow_run_id :: string

definition retrain_food_model :: "food_env \<Rightarrow> food_store \<Rightarrow> food_info \<times> food_store" where
  "retrain_food_model env s =
     (let s0 = ensure_food_dirs s;
          (X, y) = generate_food_training_data;
          s1 = s0\<lparr>mlflow_runs := mlflow_runs s0 @ [''food_calorie_model'']\<rparr>;
          (model, err) = food_fit env X y;
          model_path =
            path_join FOOD_MODELS_DIR (''food_model_'' @ food_utcnow_stamp env @ ''.joblib'');
          s2 = s1\<lparr>files := (files s1)(model_path \<mapsto> Fitted model)\<rparr>;
          (doc, s3) = load_food_meta s2;
          ms2 = map (\<lambda>m. m\<lparr>active := False\<rparr>) (get_models doc) @
                 [\<lparr>name = basename model_path, path = model_path,
                   mlflow_run_id = Some (food_run_id env),
                   created_at = food_utcnow_iso env, active = True, mae = err\<rparr>];
          s4 = save_food_meta (MetaDoc (Some ms2)) s3
      in (\<lparr>info_status = ''trained_food_model'', info_mae = err,
           info_model_path = model_path, info_mlflow_run_id = food_run_id env\<rparr>, s4))"

subsection \<open>Food prediction\<close>

text \<open>\<^verbatim>\<open>os.path.exists(path)\<close>\<close>

definition path_exists :: "('r, 'm) store \<Rightarrow> string \<Rightarrow> bool" where
  "path_exists s p = (files s p \<noteq> None)"

definition load_active_food_model ::
  "food_env \<Rightarrow> food_store \<Rightarrow> (py_error + food_model) \<times> food_store" where
  "load_active_food_model env s =
     (let (p_opt, s1) = get_active_food_model_path s in
      case p_opt of
        None \<Rightarrow>
          (let (info, s2) = retrain_food_model env s1
           in (load s2 (info_model_path info), s2))
      | Some p \<Rightarrow>
          if p = [] \<or> \<not> path_exists s1 p
          then (let (info, s2) = retrain_food_model env s1
                in (load s2 (info_model_path info), s2))
          else (load s1 p, s1))"

text \<open>
  A meal item: a dictionary that may lack the key \<^verbatim>\<open>"name"\<close> or the key
  \<^verbatim>\<open>"quantity"\<close>; a quantity that is present is a number, as the route's schema
  \<^verbatim>\<open>MealItem\<close> has it.
\<close>

record meal_item =
  item_name :: "string option"
  item_quantity :: "real option"

text \<open>\<^verbatim>\<open>str.isspace\<close> on an ASCII character, \<^verbatim>\<open>str.strip()\<close> and \<^verbatim>\<open>str.replace(" ", "_")\<close>.\<close>

definition isspace :: "char \<Rightarrow> bool" where
  "isspace c = (let n = (of_char c :: nat) in (9 \<le> n \<and> n \<le> 13) \<or> (28 \<le> n \<and> n \<le> 32))"

definition strip :: "string \<Rightarrow> string" where
  "strip s = rev (dropWhile isspace (rev (dropWhile isspace s)))"

definition replace_space :: "string \<Rightarrow> string" where
  "replace_space s = map (\<lambda>c. if c = CHR '' '' then CHR ''_'' else c) s"

text \<open>\<^verbatim>\<open>item.get("name", "").strip().lower().replace(" ", "_")\<close>\<close>

definition raw_name :: "meal_item \<Rightarrow> string" where
  "raw_name item =
     replace_space (lower (strip (case item_name item of None \<Rightarrow> [] | Some n \<Rightarrow> n)))"

text \<open>\<^verbatim>\<open>float(item.get("quantity", 1.0))\<close>\<close>

definition qty_of :: "meal_item \<Rightarrow> real" where
  "qty_of item = (case item_quantity item of None \<Rightarrow> 1.0 | Some q \<Rightarrow> q)"

text \<open>The four accumulators \<^verbatim>\<open>total_cal, total_p, total_c, total_f\<close>.\<close>

type_synonym totals = "real \<times> real \<times> real \<times> real"

text \<open>One pass of the loop body \<^verbatim>\<open>for item in items\<close>.\<close>

definition add_item :: "food_model \<Rightarrow> totals \<Rightarrow> meal_item \<Rightarrow> totals" where
  "add_item model tot item =
     (case map_of FOOD_INDEX (raw_name item) of
        None \<Rightarrow> tot
      | Some idx \<Rightarrow>
          (case (tot, model idx (qty_of item)) of
             ((total_cal, total_p, total_c, total_f), (cal, p, c, f)) \<Rightarrow>
               (total_cal + cal, total_p + p, total_c + c, total_f + f)))"

record nutrition =
  calories :: real
  protein :: real
  carbs :: real
  fat :: real

definition sum_items :: "food_model \<Rightarrow> meal_item list \<Rightarrow> nutrition" where
  "sum_items model items =
     (case foldl (add_item model) (0.0, 0.0, 0.0, 0.0) items of
        (total_cal, total_p, total_c, total_f) \<Rightarrow>
          \<lparr>calories = total_cal, protein = total_p, carbs = total_c, fat = total_f\<rparr>)"

definition predict_meal_nutrition ::
  "food_env \<Rightarrow> meal_item list \<Rightarrow> food_store \<Rightarrow> (py_error + nutrition) \<times> food_store" where
  "predict_meal_nutrition env items s =
     (case load_active_food_model env s of
        (Inl e, s1) \<Rightarrow> (Inl e, s1)
      | (Inr model, s1) \<Rightarrow> (Inr (sum_items model items), s1))"

section \<open>Predicates of the properties\<close>

text \<open>
  The record \<open>r\<close> is the last active one of \<open>ms\<close>: it is active and nothing after it
  is.
\<close>

definition last_active :: "('a model_record_scheme) list \<Rightarrow> 'a model_record_scheme \<Rightarrow> bool" where
  "last_active ms r =
     (\<exists>pre post. ms = pre @ r # post \<and> active r \<and> (\<forall>m\<in>set post. \<not> active m))"

text \<open>The records of a family's registry, as \<^verbatim>\<open>get_registered_models\<close> lists them.\<close>

definition registry :: "alert_store \<Rightarrow> alert_record list" where
  "registry s = fst (get_registered_models s)"

definition food_registry :: "food_store \<Rightarrow> food_record list" where
  "food_registry s = fst (get_registered_food_models s)"

text \<open>
  A promotion took the registry from \<open>old\<close> to \<open>new\<close>: one record more, the new last
  record the only active one, and the records before it those of \<open>old\<close> with nothing
  but \<^verbatim>\<open>active\<close> changed.
\<close>

definition promoted ::
  "('a model_record_scheme) list \<Rightarrow> ('a model_record_scheme) list \<Rightarrow> bool" where
  "promoted old new =
     (length new = Suc (length old)
      \<and> filter active new = [last new]
      \<and> butlast new = map (\<lambda>m. m\<lparr>active := False\<rparr>) old)"

text \<open>
  Training runs one after the other on one family's store. An alert run that raises
  ends the sequence with \<open>None\<close>; a food run does not raise.
\<close>

fun retrain_alert_runs :: "alert_env list \<Rightarrow> alert_store \<Rightarrow> alert_store option" where
  "retrain_alert_runs [] s = Some s"
| "retrain_alert_runs (e # es) s =
     (case retrain_alert_model e s of
        (Inl err, s1) \<Rightarrow> None
      | (Inr summary, s1) \<Rightarrow> retrain_alert_runs es s1)"

fun retrain_food_runs :: "food_env list \<Rightarrow> food_store \<Rightarrow> food_store" where
  "retrain_food_runs [] s = s"
| "retrain_food_runs (e # es) s = retrain_food_runs es (snd (retrain_food_model e s))"

text \<open>
  The key \<open>k\<close> is the first of \<open>ks\<close> with the greatest score: every key before it
  scores strictly less, no key after it scores more.
\<close>

definition first_max :: "('k \<Rightarrow> real) \<Rightarrow> 'k list \<Rightarrow> 'k \<Rightarrow> bool" where
  "first_max f ks k =
     (\<exists>pre post. ks = pre @ k # post
        \<and> (\<forall>j\<in>set pre. f j < f k) \<and> (\<forall>j\<in>set post. f j \<le> f k))"

text \<open>
  The label rule in the specification's words: the number of the thresholds 0.4, 0.6
  and 0.8 that a score exceeds. Beside it, the number of thresholds that a score
  reaches.
\<close>

definition thresholds_exceeded :: "real \<Rightarrow> int" where
  "thresholds_exceeded ol = int (length (filter (\<lambda>th. th < ol) [0.4, 0.6, 0.8]))"

definition thresholds_reached :: "real \<Rightarrow> int" where
  "thresholds_reached ol = int (length (filter (\<lambda>th. th \<le> ol) [0.4, 0.6, 0.8]))"


text \<open>
  The regressor a food training run fits, and the file it dumps the regressor to.
\<close>

definition fitted_food_model :: "food_env \<Rightarrow> food_model" where
  "fitted_food_model env =
     fst (food_fit env (fst generate_food_training_data) (snd generate_food_training_data))"

definition food_model_path :: "food_env \<Rightarrow> string" where
  "food_model_path env =
     path_join FOOD_MODELS_DIR (''food_model_'' @ food_utcnow_stamp env @ ''.joblib'')"

section \<open>Example inputs\<close>

definition example_twin :: "real option \<Rightarrow> twin" where
  "example_twin ol =
     \<lparr>age = 30, gender = Some ''male'', height_cm = 170, weight_kg = 70,
      spo2 = None, resting_hr = None, sleep_hours = None, screen_time_hours = None,
      exercise_level = Some 1, smoking = None, alcohol = None, daily_steps = None,
      outside_food_per_week = None, tea_coffee_per_day = None, diet_type = Some ''veg'',
      income = None, aqi = None, commute_hours = None, ac_exposure_hours = None,
      heart_score = None, metabolic_score = None, mental_stress_score = None,
      lung_risk_score = None, organ_load_score = ol\<rparr>"

definition example_record :: "string \<Rightarrow> bool \<Rightarrow> alert_record" where
  "example_record p a =
     \<lparr>name = basename p, path = p, mlflow_run_id = Some ''run'',
      created_at = ''2024-01-01T00:00:00'', active = a,
      model_type = Some ''rf'', accuracy = 0.9, f1_macro = 0.8\<rparr>"

definition example_food_record :: "string \<Rightarrow> bool \<Rightarrow> food_record" where
  "example_food_record p a =
     \<lparr>name = basename p, path = p, mlflow_run_id = Some ''run'',
      created_at = ''2024-01-01T00:00:00'', active = a, mae = 0.5\<rparr>"

text \<open>An alert store whose registry has the records \<open>ms\<close> and whose files are \<open>fl\<close>.\<close>

definition alert_store_of ::
  "alert_record list \<Rightarrow> (string \<rightharpoonup> alert_model artifact) \<Rightarrow> alert_store" where
  "alert_store_of ms fl = \<lparr>meta_file = Some (MetaDoc (Some ms)), files = fl, mlflow_runs = []\<rparr>"

definition food_store_of ::
  "food_record list \<Rightarrow> (string \<rightharpoonup> food_model artifact) \<Rightarrow> food_store" where
  "food_store_of ms fl = \<lparr>meta_file = Some (MetaDoc (Some ms)), files = fl, mlflow_runs = []\<rparr>"

text \<open>A store before first use: no document, no file, no run.\<close>

definition fresh_alert_store :: alert_store where
  "fresh_alert_store = \<lparr>meta_file = None, files = Map.empty, mlflow_runs = []\<rparr>"

definition fresh_food_store :: food_store where
  "fresh_food_store = \<lparr>meta_file = None, files = Map.empty, mlflow_runs = []\<rparr>"

text \<open>
  An environment of ten twins whose candidates score the macro-F1 values of the
  specification's example: 0.70 first, then 0.85 twice.
\<close>

definition example_f1 :: "string \<Rightarrow> real" where
  "example_f1 k = (if k = ''logreg'' then 0.70 else if k = ''rf'' \<or> k = ''gb'' then 0.85 else 0.5)"

definition example_acc :: "string \<Rightarrow> real" where
  "example_acc k = (if k = ''gb'' then 0.95 else 0.75)"

definition example_alert_env :: "nat \<Rightarrow> alert_env" where
  "example_alert_env n =
     \<lparr>db_twins = replicate n (example_twin (Some 0.5)),
      XGBOOST_AVAILABLE = False,
      train_test_split = (\<lambda>X y. Inr (X, X, y, y)),
      fit_score = (\<lambda>k sp. Inr ((\<lambda>fv. 1), example_acc k, example_f1 k)),
      run_id = (\<lambda>nm. ''id_'' @ nm),
      utcnow_stamp = (\<lambda>k. ''20240101-000000''),
      utcnow_iso = ''2024-01-01T00:00:00''\<rparr>"

text \<open>A food environment whose regressor is exact on the first catalogue entry.\<close>

definition example_food_model :: food_model where
  "example_food_model idx qty = (70 * qty, 2 * qty, 12 * qty, qty / 2)"

definition example_food_env :: food_env where
  "example_food_env =
     \<lparr>food_fit = (\<lambda>X y. (example_food_model, 0)),
      food_run_id = ''food_run'',
      food_utcnow_stamp = ''20240101-000000'',
      food_utcnow_iso = ''2024-01-01T00:00:00''\<rparr>"

section \<open>Properties\<close>

subsection \<open>Reading the active record\<close>

lemma find_rev_last:
  "find P (rev xs) = (if filter P xs = [] then None else Some (last (filter P xs)))"
  by (induction xs rule: rev_induct) auto

lemma last_filter_split:
  "filter P xs \<noteq> [] \<Longrightarrow>
     \<exists>pre post. xs = pre @ last (filter P xs) # post \<and> P (last (filter P xs))
       \<and> (\<forall>m\<in>set post. \<not> P m)"
proof (induction xs rule: rev_induct)
  case Nil
  then show ?case by simp
next
  case (snoc x xs)
  show ?case
  proof (cases "P x")
    case True
    then have "xs @ [x] = xs @ last (filter P (xs @ [x])) # []
        \<and> P (last (filter P (xs @ [x])))"
      by simp
    then show ?thesis by (metis empty_iff list.set(1))
  next
    case False
    with snoc.prems have ne: "filter P xs \<noteq> []" by simp
    from snoc.IH[OF ne] obtain pre post where
      h: "xs = pre @ last (filter P xs) # post" "P (last (filter P xs))"
         "\<forall>m\<in>set post. \<not> P m"
      by blast
    from h(1) have "xs @ [x] = pre @ last (filter P xs) # (post @ [x])" by simp
    moreover have "\<forall>m\<in>set (post @ [x]). \<not> P m" using h(3) False by simp
    moreover have "last (filter P (xs @ [x])) = last (filter P xs)" using False by simp
    ultimately show ?thesis using h(2) by metis
  qed
qed

lemma filter_empty_none: "filter P xs = [] \<Longrightarrow> \<forall>m\<in>set xs. \<not> P m"
  by (simp add: filter_empty_conv)

lemma last_active_last_filter:
  "filter active ms \<noteq> [] \<Longrightarrow> last_active ms (last (filter active ms))"
  unfolding last_active_def by (rule last_filter_split)

text \<open>
  C8. For every registry document, also one without the key \<^verbatim>\<open>"models"\<close> and one
  with several active records, \<^verbatim>\<open>get_active_model_info\<close> returns the active record
  that stands last in the list, and \<^verbatim>\<open>None\<close> when no record is active; the accessors
  are total, so none of them raises. \<^verbatim>\<open>get_active_model_path\<close> returns the path of
  that same record, and \<^verbatim>\<open>get_active_food_model_path\<close> the path of the last active
  record of the food registry.
\<close>

theorem get_active_selects_last:
  fixes s :: alert_store and fs :: food_store
  defines "ms \<equiv> fst (get_registered_models s)"
      and "fms \<equiv> fst (get_registered_food_models fs)"
  shows "(case fst (get_active_model_info s) of
            None \<Rightarrow> (\<forall>m\<in>set ms. \<not> active m)
          | Some r \<Rightarrow> last_active ms r)
       \<and> fst (get_active_model_path s) = map_option path (fst (get_active_model_info s))
       \<and> (case fst (get_active_food_model_path fs) of
            None \<Rightarrow> (\<forall>m\<in>set fms. \<not> active m)
          | Some p \<Rightarrow> (\<exists>r. last_active fms r \<and> p = path r))"
proof -
  have info: "fst (get_active_model_info s) =
      (if filter active ms = [] then None else Some (last (filter active ms)))"
    by (simp add: get_active_model_info_def get_registered_models_def ms_def
        find_rev_last split: prod.splits)
  have pth: "fst (get_active_model_path s) =
      (if filter active ms = [] then None else Some (path (last (filter active ms))))"
    by (simp add: get_active_model_path_def get_registered_models_def ms_def
        split: prod.splits)
  have fpth: "fst (get_active_food_model_path fs) =
      (if filter active fms = [] then None else Some (path (last (filter active fms))))"
    by (simp add: get_active_food_model_path_def get_registered_food_models_def fms_def
        split: prod.splits)
  have a: "(case fst (get_active_model_info s) of
            None \<Rightarrow> (\<forall>m\<in>set ms. \<not> active m)
          | Some r \<Rightarrow> last_active ms r)"
    using filter_empty_none[of active ms] last_active_last_filter[of ms]
    by (simp add: info)
  have b: "fst (get_active_model_path s) = map_option path (fst (get_active_model_info s))"
    by (simp add: info pth)
  have c: "(case fst (get_active_food_model_path fs) of
            None \<Rightarrow> (\<forall>m\<in>set fms. \<not> active m)
          | Some p \<Rightarrow> (\<exists>r. last_active fms r \<and> p = path r))"
    using filter_empty_none[of active fms] last_active_last_filter[of fms]
    by (auto simp add: fpth)
  from a b c show ?thesis by simp
qed

theorem get_active_selects_last_witness:
  "fst (get_active_model_info
         (alert_store_of [example_record ''models/a.joblib'' True,
                          example_record ''models/b.joblib'' True,
                          example_record ''models/c.joblib'' False] Map.empty))
     = Some (example_record ''models/b.joblib'' True)
   \<and> last_active [example_record ''models/a.joblib'' True,
                   example_record ''models/b.joblib'' True,
                   example_record ''models/c.joblib'' False]
        (example_record ''models/b.joblib'' True)
   \<and> fst (get_active_model_path
         (alert_store_of [example_record ''models/a.joblib'' True,
                          example_record ''models/b.joblib'' True,
                          example_record ''models/c.joblib'' False] Map.empty))
     = Some ''models/b.joblib''
   \<and> fst (get_active_food_model_path fresh_food_store) = None"
proof -
  let ?ms = "[example_record ''models/a.joblib'' True,
              example_record ''models/b.joblib'' True,
              example_record ''models/c.joblib'' False]"
  let ?s = "alert_store_of ?ms Map.empty"
  have info: "fst (get_active_model_info ?s) = Some (example_record ''models/b.joblib'' True)"
    by (simp add: get_active_model_info_def load_meta_def ensure_dirs_def alert_store_of_def
        example_record_def)
  have reg: "fst (get_registered_models ?s) = ?ms"
    by (simp add: get_registered_models_def load_meta_def ensure_dirs_def alert_store_of_def)
  have fp: "fst (get_active_food_model_path fresh_food_store) = None"
    by (simp add: get_active_food_model_path_def load_food_meta_def ensure_food_dirs_def
        fresh_food_store_def)
  have pb: "path (example_record ''models/b.joblib'' True) = ''models/b.joblib''"
    by (simp add: example_record_def)
  from get_active_selects_last[of ?s fresh_food_store] show ?thesis
    by (simp add: info reg fp pb)
qed

subsection \<open>The label of a stored entity\<close>

text \<open>
  C7, as the code has it. For every stored entity, the label that
  \<^verbatim>\<open>_build_label\<close> assigns is the number of the thresholds 0.4, 0.6 and 0.8 that the
  organ-load score (0.0 when the column is empty) reaches or exceeds, a value in
  \<open>{0, 1, 2, 3}\<close>: a score equal to a threshold counts that threshold. Away from the
  three thresholds this is the number of thresholds the score exceeds.
\<close>

theorem build_label_counts_thresholds_reached:
  "build_label t = thresholds_reached (py_or (organ_load_score t) 0.0)
   \<and> build_label t \<in> {0, 1, 2, 3}
   \<and> (py_or (organ_load_score t) 0.0 \<notin> {0.4, 0.6, 0.8} \<longrightarrow>
        build_label t = thresholds_exceeded (py_or (organ_load_score t) 0.0))"
  by (simp add: build_label_def thresholds_reached_def thresholds_exceeded_def Let_def)

theorem build_label_counts_thresholds_reached_witness:
  "build_label (example_twin (Some 0.6)) = 2 \<and> thresholds_reached 0.6 = 2
   \<and> build_label (example_twin (Some 0.7)) = thresholds_exceeded 0.7"
  using build_label_counts_thresholds_reached[of "example_twin (Some 0.6)"]
    build_label_counts_thresholds_reached[of "example_twin (Some 0.7)"]
  by (simp add: example_twin_def py_or_def thresholds_reached_def)

text \<open>
  C7, as the claim states it, fails at a score equal to a threshold: the score 0.4
  exceeds none of the thresholds and is labelled 1.
\<close>

theorem build_label_threshold_counterexample:
  "build_label (example_twin (Some 0.4)) = 1
   \<and> thresholds_exceeded (py_or (organ_load_score (example_twin (Some 0.4))) 0.0) = 0
   \<and> build_label (example_twin (Some 0.4))
       \<noteq> thresholds_exceeded (py_or (organ_load_score (example_twin (Some 0.4))) 0.0)"
  by (simp add: build_label_def example_twin_def py_or_def thresholds_exceeded_def)

subsection \<open>The food loop and the food loader\<close>











lemma load_fitted: "files s p = Some (Fitted m) \<Longrightarrow> load s p = Inr m"
  by (simp add: load_def)


lemma filter_active_deactivated [simp]:
  "filter active (map (\<lambda>m. m\<lparr>active := False\<rparr>) ms) = []"
  by (induction ms) simp_all

lemma food_model_path_nonempty [simp]: "food_model_path env \<noteq> []"
  by (simp add: food_model_path_def path_join_def FOOD_MODELS_DIR_def)

lemma food_registry_ensure [simp]: "food_registry (ensure_food_dirs s) = food_registry s"
  by (simp add: food_registry_def get_registered_food_models_def load_food_meta_def
      ensure_food_dirs_def split: option.splits)

lemma food_path_state: "snd (get_active_food_model_path s) = ensure_food_dirs s"
  by (simp add: get_active_food_model_path_def load_food_meta_def ensure_food_dirs_def
      Let_def split: option.splits)

lemma food_path_ensure [simp]:
  "fst (get_active_food_model_path (ensure_food_dirs s)) = fst (get_active_food_model_path s)"
  by (simp add: get_active_food_model_path_def load_food_meta_def ensure_food_dirs_def
      Let_def split: option.splits)

lemma ensure_food_dirs_frame [simp]:
  "files (ensure_food_dirs s) = files s" "mlflow_runs (ensure_food_dirs s) = mlflow_runs s"
  by (simp_all add: ensure_food_dirs_def split: option.splits)

lemma ensure_food_dirs_idem [simp]: "ensure_food_dirs (ensure_food_dirs s) = ensure_food_dirs s"
  by (simp add: ensure_food_dirs_def split: option.splits)

lemma retrain_food_model_shape:
  "\<exists>info s2. retrain_food_model env s = (info, s2)
     \<and> info_model_path info = food_model_path env
     \<and> files s2 = (files s)(food_model_path env \<mapsto> Fitted (fitted_food_model env))
     \<and> mlflow_runs s2 = mlflow_runs s @ [''food_calorie_model'']
     \<and> (\<exists>r. meta_file s2 = Some (MetaDoc (Some
            (map (\<lambda>m. m\<lparr>active := False\<rparr>) (food_registry s) @ [r])))
          \<and> active r \<and> path r = food_model_path env)"
  by (simp add: retrain_food_model_def Let_def split_beta food_registry_def
      get_registered_food_models_def load_food_meta_def ensure_food_dirs_def
      save_food_meta_def fitted_food_model_def food_model_path_def split: option.splits)

lemma food_registry_of_doc:
  "meta_file s = Some (MetaDoc (Some ms)) \<Longrightarrow> food_registry s = ms"
  by (simp add: food_registry_def get_registered_food_models_def load_food_meta_def
      ensure_food_dirs_def)

lemma food_path_of_doc:
  "meta_file s = Some (MetaDoc (Some ms)) \<Longrightarrow>
     get_active_food_model_path s =
       (if filter active ms = [] then None else Some (path (last (filter active ms))), s)"
  by (simp add: get_active_food_model_path_def load_food_meta_def ensure_food_dirs_def Let_def)

lemma load_active_food_model_bootstrap:
  assumes "fst (get_active_food_model_path s) = None
           \<or> (\<exists>p. fst (get_active_food_model_path s) = Some p \<and> (p = [] \<or> files s p = None))"
  shows "\<exists>s2 r. load_active_food_model env s = (Inr (fitted_food_model env), s2)
     \<and> files s2 = (files s)(food_model_path env \<mapsto> Fitted (fitted_food_model env))
     \<and> mlflow_runs s2 = mlflow_runs s @ [''food_calorie_model'']
     \<and> meta_file s2 = Some (MetaDoc (Some
            (map (\<lambda>m. m\<lparr>active := False\<rparr>) (food_registry s) @ [r])))
     \<and> active r \<and> path r = food_model_path env"
proof -
  obtain po s1 where g: "get_active_food_model_path s = (po, s1)" by fastforce
  have s1: "s1 = ensure_food_dirs s" using food_path_state[of s] g by simp
  from retrain_food_model_shape[of env s1] obtain info s2 r where
    rt: "retrain_food_model env s1 = (info, s2)"
    and ip: "info_model_path info = food_model_path env"
    and fl: "files s2 = (files s1)(food_model_path env \<mapsto> Fitted (fitted_food_model env))"
    and rn: "mlflow_runs s2 = mlflow_runs s1 @ [''food_calorie_model'']"
    and mf: "meta_file s2 = Some (MetaDoc (Some
            (map (\<lambda>m. m\<lparr>active := False\<rparr>) (food_registry s1) @ [r])))"
    and ar: "active r" "path r = food_model_path env"
    by blast
  have ld: "load s2 (food_model_path env) = Inr (fitted_food_model env)"
    by (simp add: load_def fl)
  have br: "load_active_food_model env s = (load s2 (info_model_path info), s2)"
    using assms g rt s1
    by (auto simp add: load_active_food_model_def path_exists_def)
  show ?thesis
    using br ld ip fl rn mf ar s1 by simp
qed

lemma load_active_food_model_reuse:
  assumes "fst (get_active_food_model_path s) = Some p" "p \<noteq> []" "files s p = Some a"
  shows "load_active_food_model env s =
           ((case a of Fitted m \<Rightarrow> Inr m | Unreadable \<Rightarrow> Inl (UnpicklingError p)),
            ensure_food_dirs s)"
proof -
  obtain po s1 where g: "get_active_food_model_path s = (po, s1)" by fastforce
  have s1: "s1 = ensure_food_dirs s" using food_path_state[of s] g by simp
  show ?thesis
    using assms g s1
    by (auto simp add: load_active_food_model_def path_exists_def load_def
        split: artifact.splits)
qed

subsection \<open>Lazy bootstrap of the food model\<close>

lemma predict_after_bootstrap:
  assumes mf: "meta_file s2 = Some (MetaDoc (Some (map (\<lambda>m. m\<lparr>active := False\<rparr>) ms @ [r])))"
    and ar: "active r" and pr: "path r = p" and ne: "p \<noteq> []"
    and fl: "files s2 p = Some (Fitted m)"
  shows "predict_meal_nutrition env2 items2 s2 = (Inr (sum_items m items2), s2)"
proof -
  have g: "get_active_food_model_path s2 = (Some p, s2)"
    using food_path_of_doc[OF mf] ar pr by simp
  have e: "ensure_food_dirs s2 = s2" using mf by (simp add: ensure_food_dirs_def)
  have "load_active_food_model env2 s2 = (Inr m, s2)"
    using load_active_food_model_reuse[of s2 p "Fitted m" env2] g ne fl e by simp
  then show ?thesis by (simp add: predict_meal_nutrition_def)
qed

text \<open>
  C5. When the food registry has no active record, a call of
  \<^verbatim>\<open>predict_meal_nutrition\<close> starts exactly one MLflow run (one training run), adds
  exactly one record to the registry, dumps the fitted regressor and computes the totals
  with that regressor. In the store the call leaves behind, every later call, whatever
  its items, computes its totals with the same regressor and leaves the store as it is:
  no run, no record and no file is added.
\<close>

theorem food_bootstrap_trains_once:
  assumes "fst (get_active_food_model_path s) = None"
  shows "\<exists>s2. predict_meal_nutrition env items s =
                (Inr (sum_items (fitted_food_model env) items), s2)
     \<and> mlflow_runs s2 = mlflow_runs s @ [''food_calorie_model'']
     \<and> length (food_registry s2) = Suc (length (food_registry s))
     \<and> files s2 = (files s)(food_model_path env \<mapsto> Fitted (fitted_food_model env))
     \<and> (\<forall>env2 items2. predict_meal_nutrition env2 items2 s2 =
                (Inr (sum_items (fitted_food_model env) items2), s2))"
proof -
  from load_active_food_model_bootstrap[of s env] assms obtain s2 r where
    ld: "load_active_food_model env s = (Inr (fitted_food_model env), s2)"
    and fl: "files s2 = (files s)(food_model_path env \<mapsto> Fitted (fitted_food_model env))"
    and rn: "mlflow_runs s2 = mlflow_runs s @ [''food_calorie_model'']"
    and mf: "meta_file s2 = Some (MetaDoc (Some
            (map (\<lambda>m. m\<lparr>active := False\<rparr>) (food_registry s) @ [r])))"
    and ar: "active r" and pr: "path r = food_model_path env"
    by blast
  have p1: "predict_meal_nutrition env items s =
      (Inr (sum_items (fitted_food_model env) items), s2)"
    using ld by (simp add: predict_meal_nutrition_def)
  have len: "length (food_registry s2) = Suc (length (food_registry s))"
    using food_registry_of_doc[OF mf] by simp
  have f2: "files s2 (food_model_path env) = Some (Fitted (fitted_food_model env))"
    using fl by simp
  have again: "\<forall>env2 items2. predict_meal_nutrition env2 items2 s2 =
      (Inr (sum_items (fitted_food_model env) items2), s2)"
    using predict_after_bootstrap[OF mf ar pr food_model_path_nonempty f2] by simp
  from p1 rn len fl again show ?thesis by blast
qed

lemma raw_name_idli: "raw_name \<lparr>item_name = Some ''idli'', item_quantity = q\<rparr> = ''idli''"
  by (simp add: raw_name_def strip_def lower_def lower_char_def isspace_def replace_space_def)

lemma index_idli: "map_of FOOD_INDEX ''idli'' = Some 0"
  by (simp add: FOOD_INDEX_def FOOD_DB_def upt_rec)

lemma fresh_food_no_active: "fst (get_active_food_model_path fresh_food_store) = None"
  by (simp add: get_active_food_model_path_def load_food_meta_def ensure_food_dirs_def
      fresh_food_store_def)

lemma fitted_example: "fitted_food_model example_food_env = example_food_model"
  by (simp add: fitted_food_model_def example_food_env_def)

lemma sum_idli_two:
  "sum_items example_food_model [\<lparr>item_name = Some ''idli'', item_quantity = Some 2\<rparr>]
     = \<lparr>calories = 140, protein = 4, carbs = 24, fat = 1\<rparr>"
  by (simp add: sum_items_def add_item_def raw_name_idli index_idli qty_of_def
      example_food_model_def)

theorem food_bootstrap_trains_once_witness:
  "fst (get_active_food_model_path fresh_food_store) = None
   \<and> (\<exists>s2. predict_meal_nutrition example_food_env
              [\<lparr>item_name = Some ''idli'', item_quantity = Some 2\<rparr>] fresh_food_store
            = (Inr \<lparr>calories = 140, protein = 4, carbs = 24, fat = 1\<rparr>, s2)
        \<and> mlflow_runs s2 = [''food_calorie_model'']
        \<and> length (food_registry s2) = 1
        \<and> predict_meal_nutrition example_food_env
              [\<lparr>item_name = Some ''idli'', item_quantity = Some 2\<rparr>] s2
            = (Inr \<lparr>calories = 140, protein = 4, carbs = 24, fat = 1\<rparr>, s2))"
proof -
  have reg0: "food_registry fresh_food_store = []"
    by (simp add: food_registry_def get_registered_food_models_def load_food_meta_def
        ensure_food_dirs_def fresh_food_store_def)
  have runs0: "mlflow_runs fresh_food_store = []"
    by (simp add: fresh_food_store_def)
  let ?items = "[\<lparr>item_name = Some ''idli'', item_quantity = Some 2\<rparr>]"
  from food_bootstrap_trains_once[OF fresh_food_no_active, of example_food_env ?items]
  obtain s2 where
    p1: "predict_meal_nutrition example_food_env ?items fresh_food_store =
          (Inr (sum_items (fitted_food_model example_food_env) ?items), s2)"
    and rn: "mlflow_runs s2 = mlflow_runs fresh_food_store @ [''food_calorie_model'']"
    and len: "length (food_registry s2) = Suc (length (food_registry fresh_food_store))"
    and again: "\<forall>env2 items2. predict_meal_nutrition env2 items2 s2 =
          (Inr (sum_items (fitted_food_model example_food_env) items2), s2)"
    by blast
  have "predict_meal_nutrition example_food_env ?items fresh_food_store
            = (Inr \<lparr>calories = 140, protein = 4, carbs = 24, fat = 1\<rparr>, s2)
        \<and> mlflow_runs s2 = [''food_calorie_model'']
        \<and> length (food_registry s2) = 1
        \<and> predict_meal_nutrition example_food_env ?items s2
            = (Inr \<lparr>calories = 140, protein = 4, carbs = 24, fat = 1\<rparr>, s2)"
    using p1 rn len again by (simp add: fitted_example sum_idli_two reg0 runs0)
  then show ?thesis using fresh_food_no_active by blast
qed

subsection \<open>Unknown items and missing quantities\<close>






text \<open>
  C10. An item without the key \<^verbatim>\<open>"quantity"\<close> has the quantity 1.0: the loop body
  and the whole prediction treat it as the same item with the quantity 1.0 written out,
  and when its name is in the catalogue it adds the regressor's values at quantity 1.0
  to the accumulators.
\<close>

theorem missing_quantity_counts_as_one:
  "qty_of \<lparr>item_name = n, item_quantity = None\<rparr> = 1
   \<and> add_item model tot \<lparr>item_name = n, item_quantity = None\<rparr>
       = add_item model tot \<lparr>item_name = n, item_quantity = Some 1\<rparr>
   \<and> predict_meal_nutrition env (xs @ \<lparr>item_name = n, item_quantity = None\<rparr> # ys) s
       = predict_meal_nutrition env (xs @ \<lparr>item_name = n, item_quantity = Some 1\<rparr> # ys) s
   \<and> (map_of FOOD_INDEX (raw_name \<lparr>item_name = n, item_quantity = None\<rparr>) = Some idx \<longrightarrow>
        add_item model (a, b, c, d) \<lparr>item_name = n, item_quantity = None\<rparr>
          = (case model idx 1 of (cal, p, cb, f) \<Rightarrow> (a + cal, b + p, c + cb, d + f)))"
proof -
  have q: "qty_of \<lparr>item_name = n, item_quantity = None\<rparr> = 1"
    by (simp add: qty_of_def)
  have q1: "qty_of \<lparr>item_name = n, item_quantity = None\<rparr>
       = qty_of \<lparr>item_name = n, item_quantity = Some 1\<rparr>"
    by (simp add: qty_of_def)
  have r1: "raw_name \<lparr>item_name = n, item_quantity = None\<rparr>
       = raw_name \<lparr>item_name = n, item_quantity = Some 1\<rparr>"
    by (simp add: raw_name_def)
  have ai2: "\<And>m t. add_item m t \<lparr>item_name = n, item_quantity = None\<rparr>
       = add_item m t \<lparr>item_name = n, item_quantity = Some 1\<rparr>"
    unfolding add_item_def q1 r1 by (rule refl)
  have ai: "add_item model tot \<lparr>item_name = n, item_quantity = None\<rparr>
       = add_item model tot \<lparr>item_name = n, item_quantity = Some 1\<rparr>"
    by (rule ai2)
  have si: "\<And>m. sum_items m (xs @ \<lparr>item_name = n, item_quantity = None\<rparr> # ys)
       = sum_items m (xs @ \<lparr>item_name = n, item_quantity = Some 1\<rparr> # ys)"
    by (simp add: sum_items_def ai2)
  have pr: "predict_meal_nutrition env (xs @ \<lparr>item_name = n, item_quantity = None\<rparr> # ys) s
       = predict_meal_nutrition env (xs @ \<lparr>item_name = n, item_quantity = Some 1\<rparr> # ys) s"
    unfolding predict_meal_nutrition_def by (simp only: si)
  have kn: "map_of FOOD_INDEX (raw_name \<lparr>item_name = n, item_quantity = None\<rparr>) = Some idx \<longrightarrow>
        add_item model (a, b, c, d) \<lparr>item_name = n, item_quantity = None\<rparr>
          = (case model idx 1 of (cal, p, cb, f) \<Rightarrow> (a + cal, b + p, c + cb, d + f))"
    by (simp add: add_item_def qty_of_def split: prod.splits)
  from q ai pr kn show ?thesis by blast
qed

theorem missing_quantity_counts_as_one_witness:
  "map_of FOOD_INDEX (raw_name \<lparr>item_name = Some ''idli'', item_quantity = None\<rparr>) = Some 0
   \<and> add_item example_food_model (0, 0, 0, 0) \<lparr>item_name = Some ''idli'', item_quantity = None\<rparr>
       = (70, 2, 12, 1 / 2)
   \<and> add_item example_food_model (0, 0, 0, 0) \<lparr>item_name = Some ''idli'', item_quantity = Some 1\<rparr>
       = (70, 2, 12, 1 / 2)"
proof -
  have k: "map_of FOOD_INDEX (raw_name \<lparr>item_name = Some ''idli'', item_quantity = None\<rparr>) = Some 0"
    by (simp add: raw_name_idli index_idli)
  from missing_quantity_counts_as_one[of "Some ''idli''" example_food_model "(0, 0, 0, 0)"
      example_food_env "[]" "[]" fresh_food_store 0 0 0 0 0] k
  have e: "add_item example_food_model (0, 0, 0, 0)
             \<lparr>item_name = Some ''idli'', item_quantity = None\<rparr>
           = add_item example_food_model (0, 0, 0, 0)
             \<lparr>item_name = Some ''idli'', item_quantity = Some 1\<rparr>"
    and v0: "add_item example_food_model (0, 0, 0, 0)
             \<lparr>item_name = Some ''idli'', item_quantity = None\<rparr>
           = (case example_food_model 0 1 of
                (cal, p, cb, f) \<Rightarrow> (0 + cal, 0 + p, 0 + cb, 0 + f))"
    by blast+
  from v0 have v: "add_item example_food_model (0, 0, 0, 0)
             \<lparr>item_name = Some ''idli'', item_quantity = None\<rparr> = (70, 2, 12, 1 / 2)"
    by (simp add: example_food_model_def)
  from e v have w: "add_item example_food_model (0, 0, 0, 0)
             \<lparr>item_name = Some ''idli'', item_quantity = Some 1\<rparr> = (70, 2, 12, 1 / 2)"
    by (rule subst)
  from k v w show ?thesis by blast
qed

end
